theory Spec2Isabelle
  imports Complex_Main "HOL-Library.Log_Nat"
begin

section \<open>The SP1K1 calculation IOC\<close>

text \<open>
  A shallow embedding of \<^verbatim>\<open>ioc_rix_sp1k1_calc.py\<close>. The IOC keeps the last accepted
  sample of four motor read-backs and republishes three derived values (energy with its
  cff number, bandwidth, grating) whenever a read-back moves by more than a deadband.

  Conventions of the model:
  \<^item> A Python float is an IEEE binary64 number. It is modelled by the \<^typ>\<open>real\<close> it
    denotes; samples are finite. The arithmetic of the deadband comparison rounds each
    result to the nearest binary64 number, ties to even (\<open>float64\<close>). Overflow to
    infinity is not modelled: an overflowing difference and its finite rounding both
    exceed the tolerance, so the comparison decides the same.
  \<^item> \<^verbatim>\<open>None\<close> in an input slot is \<^term>\<open>None\<close> of an option type.
  \<^item> A Python exception is a value of type \<open>exn\<close>; a function that may raise returns
    a sum with \<^term>\<open>Inl\<close> for the raise. Assignments made before a raise stay made, so a
    handler returns the state it reached together with its outcome.
  \<^item> The calls to the externally supplied module \<^verbatim>\<open>rix_utilities\<close> and the writes to
    the output records are logged as events, in program order.
  \<^item> The leading underscore of the Python method names is dropped.
\<close>

subsection \<open>Constants and the comparison of numpy\<close>

type_synonym timestamp = real

datatype exn = Raised string

text \<open>Rounding a real to the nearest integer, ties to the even one.\<close>

definition rne :: "real \<Rightarrow> int" where
  "rne y =
     (let f = \<lfloor>y\<rfloor>; d = y - of_int f
      in if d < 1 / 2 then f else if 1 / 2 < d then f + 1 else if even f then f else f + 1)"

text \<open>
  The binary64 number nearest to a non-negative real \<open>y\<close>. Binary64 numbers are the
  integer multiples of \<open>2 ^ -1074\<close> with at most 53 significant bits: \<open>y\<close> is scaled
  by \<open>2 ^ 1074\<close>, the \<open>k\<close> bits beyond the 53rd are rounded away, and the result is
  scaled back. \<open>float64\<close> extends this to negative numbers by symmetry.
\<close>

definition round_pos :: "real \<Rightarrow> real" where
  "round_pos y =
     (let M = y * 2 ^ 1074; k = nat (bitlen \<lfloor>M\<rfloor> - 53)
      in of_int (rne (M / 2 ^ k)) * 2 ^ k / 2 ^ 1074)"

definition float64 :: "real \<Rightarrow> real" where
  "float64 x = sgn x * round_pos \<bar>x\<bar>"

text \<open>\<^verbatim>\<open>DEADBAND = 0.05\<close>: the literal denotes the binary64 number nearest to 0.05.\<close>

definition DEADBAND :: real where
  "DEADBAND = float64 0.05"

text \<open>
  \<^verbatim>\<open>numpy.isclose(a, b, rtol, atol)\<close> on finite scalars:
  \<^verbatim>\<open>absolute(a - b) <= (atol + rtol * absolute(b))\<close>, each operation in binary64.
\<close>

definition isclose :: "real \<Rightarrow> real \<Rightarrow> real \<Rightarrow> real \<Rightarrow> bool" where
  "isclose a b rtol atol = (\<bar>float64 (a - b)\<bar> \<le> float64 (atol + float64 (rtol * \<bar>b\<bar>)))"

subsection \<open>The external calculation module\<close>

text \<open>
  \<^verbatim>\<open>rix_utilities\<close> is loaded at start-up from a file outside the repository. The IOC
  uses three of its functions; they are parameters of the model. Each may raise.
\<close>

record rix_utilities =
  calc_E :: "real \<Rightarrow> real \<Rightarrow> exn + real \<times> real"
  calc_BW :: "real \<Rightarrow> real \<Rightarrow> real \<Rightarrow> exn + real"
  get_grating :: "unit \<Rightarrow> exn + string"

subsection \<open>State\<close>

text \<open>An output record of the server: its value and the timestamp of its last write.\<close>

record 'a pv =
  pv_value :: 'a
  pv_timestamp :: timestamp

text \<open>A sample delivered by a subscription: \<^verbatim>\<open>response.data\<close> and
  \<^verbatim>\<open>response.metadata.timestamp\<close>.\<close>

record response =
  data :: real
  metadata_timestamp :: timestamp

record ioc =
  g_pi_value :: "real option"
  m_pi_value :: "real option"
  exit_gap_value :: "real option"
  g_h_value :: "real option"
  energy :: "real pv"
  cff :: "real pv"
  bandwidth :: "real pv"
  grating :: "string pv"

text \<open>
  \<^verbatim>\<open>__init__\<close> sets the four slots to \<^verbatim>\<open>None\<close>; the \<^verbatim>\<open>pvproperty\<close> declarations
  give the outputs the values 0.0 and the empty string. The timestamp the server library
  gives a fresh record is the parameter \<open>t0\<close>.
\<close>

definition init :: "timestamp \<Rightarrow> ioc" where
  "init t0 =
     \<lparr>g_pi_value = None, m_pi_value = None, exit_gap_value = None, g_h_value = None,
      energy = \<lparr>pv_value = 0, pv_timestamp = t0\<rparr>,
      cff = \<lparr>pv_value = 0, pv_timestamp = t0\<rparr>,
      bandwidth = \<lparr>pv_value = 0, pv_timestamp = t0\<rparr>,
      grating = \<lparr>pv_value = [], pv_timestamp = t0\<rparr>\<rparr>"

subsection \<open>Events\<close>

datatype event =
    Call_calc_E real real
  | Call_calc_BW real real real
  | Call_get_grating
  | Write_energy real timestamp
  | Write_cff real timestamp
  | Write_bandwidth real timestamp
  | Write_grating string timestamp

fun is_call :: "event \<Rightarrow> bool" where
  "is_call (Call_calc_E g m) = True"
| "is_call (Call_calc_BW e g m) = True"
| "is_call Call_get_grating = True"
| "is_call _ = False"

text \<open>The outcome of running a piece of the handler: whether it raised, the state it
  left, and the events it produced.\<close>

type_synonym outcome = "(exn + unit) \<times> ioc \<times> event list"

definition raised :: "outcome \<Rightarrow> bool" where
  "raised r = (case fst r of Inl e \<Rightarrow> True | Inr u \<Rightarrow> False)"

definition state_of :: "outcome \<Rightarrow> ioc" where
  "state_of r = fst (snd r)"

definition events_of :: "outcome \<Rightarrow> event list" where
  "events_of r = snd (snd r)"

text \<open>Two awaited statements in sequence: the second runs only if the first returned.\<close>

definition and_then :: "(ioc \<Rightarrow> outcome) \<Rightarrow> (ioc \<Rightarrow> outcome) \<Rightarrow> ioc \<Rightarrow> outcome" where
  "and_then f g s =
     (case f s of
        (Inl e, s1, evs1) \<Rightarrow> (Inl e, s1, evs1)
      | (Inr u, s1, evs1) \<Rightarrow> (case g s1 of (r, s2, evs2) \<Rightarrow> (r, s2, evs1 @ evs2)))"

subsection \<open>The calculations\<close>

definition calculate_energy :: "rix_utilities \<Rightarrow> ioc \<Rightarrow> (exn + real \<times> real) \<times> event list" where
  "calculate_energy ru s =
     (case (g_pi_value s, m_pi_value s) of
        (Some g, Some m) \<Rightarrow> (calc_E ru g m, [Call_calc_E g m])
      | _ \<Rightarrow> (Inr (0, 0), []))"

definition update_energy_calc :: "rix_utilities \<Rightarrow> timestamp \<Rightarrow> ioc \<Rightarrow> outcome" where
  "update_energy_calc ru ts s =
     (case calculate_energy ru s of
        (Inl e, evs) \<Rightarrow> (Inl e, s, evs)
      | (Inr (new_energy, new_cff), evs) \<Rightarrow>
          (Inr (),
           s\<lparr>energy := \<lparr>pv_value = new_energy, pv_timestamp = ts\<rparr>,
             cff := \<lparr>pv_value = new_cff, pv_timestamp = ts\<rparr>\<rparr>,
           evs @ [Write_energy new_energy ts, Write_cff new_cff ts]))"

definition calculate_bandwidth :: "rix_utilities \<Rightarrow> ioc \<Rightarrow> (exn + real) \<times> event list" where
  "calculate_bandwidth ru s =
     (case (g_pi_value s, m_pi_value s, exit_gap_value s) of
        (Some g, Some m, Some e) \<Rightarrow> (calc_BW ru e g m, [Call_calc_BW e g m])
      | _ \<Rightarrow> (Inr 0, []))"

definition update_bandwidth_calc :: "rix_utilities \<Rightarrow> timestamp \<Rightarrow> ioc \<Rightarrow> outcome" where
  "update_bandwidth_calc ru ts s =
     (case calculate_bandwidth ru s of
        (Inl e, evs) \<Rightarrow> (Inl e, s, evs)
      | (Inr new_bandwidth, evs) \<Rightarrow>
          (Inr (),
           s\<lparr>bandwidth := \<lparr>pv_value = new_bandwidth, pv_timestamp = ts\<rparr>\<rparr>,
           evs @ [Write_bandwidth new_bandwidth ts]))"

definition calculate_grating :: "rix_utilities \<Rightarrow> ioc \<Rightarrow> (exn + string) \<times> event list" where
  "calculate_grating ru s =
     (case g_h_value s of
        None \<Rightarrow> (Inr [], [])
      | Some h \<Rightarrow> (get_grating ru (), [Call_get_grating]))"

definition update_grating_calc :: "rix_utilities \<Rightarrow> timestamp \<Rightarrow> ioc \<Rightarrow> outcome" where
  "update_grating_calc ru ts s =
     (case calculate_grating ru s of
        (Inl e, evs) \<Rightarrow> (Inl e, s, evs)
      | (Inr new_grating, evs) \<Rightarrow>
          (Inr (),
           s\<lparr>grating := \<lparr>pv_value = new_grating, pv_timestamp = ts\<rparr>\<rparr>,
           evs @ [Write_grating new_grating ts]))"

subsection \<open>The subscription callbacks\<close>

text \<open>The guard the four callbacks share:
  \<^verbatim>\<open>self.x is None or not np.isclose(self.x, response.data, rtol=0, atol=DEADBAND)\<close>.\<close>

definition moved :: "real option \<Rightarrow> real \<Rightarrow> bool" where
  "moved current new =
     (case current of None \<Rightarrow> True | Some v \<Rightarrow> \<not> isclose v new 0 DEADBAND)"

definition g_pi_callback :: "rix_utilities \<Rightarrow> response \<Rightarrow> ioc \<Rightarrow> outcome" where
  "g_pi_callback ru resp s =
     (if moved (g_pi_value s) (data resp)
      then and_then (update_energy_calc ru (metadata_timestamp resp))
                    (update_bandwidth_calc ru (metadata_timestamp resp))
                    (s\<lparr>g_pi_value := Some (data resp)\<rparr>)
      else (Inr (), s, []))"

definition m_pi_callback :: "rix_utilities \<Rightarrow> response \<Rightarrow> ioc \<Rightarrow> outcome" where
  "m_pi_callback ru resp s =
     (if moved (m_pi_value s) (data resp)
      then and_then (update_energy_calc ru (metadata_timestamp resp))
                    (update_bandwidth_calc ru (metadata_timestamp resp))
                    (s\<lparr>m_pi_value := Some (data resp)\<rparr>)
      else (Inr (), s, []))"

definition exit_gap_callback :: "rix_utilities \<Rightarrow> response \<Rightarrow> ioc \<Rightarrow> outcome" where
  "exit_gap_callback ru resp s =
     (if moved (exit_gap_value s) (data resp)
      then update_bandwidth_calc ru (metadata_timestamp resp)
             (s\<lparr>exit_gap_value := Some (data resp)\<rparr>)
      else (Inr (), s, []))"

definition g_h_callback :: "rix_utilities \<Rightarrow> response \<Rightarrow> ioc \<Rightarrow> outcome" where
  "g_h_callback ru resp s =
     (if moved (g_h_value s) (data resp)
      then update_grating_calc ru (metadata_timestamp resp)
             (s\<lparr>g_h_value := Some (data resp)\<rparr>)
      else (Inr (), s, []))"


subsection \<open>The dispatch of samples and the dependency map\<close>

text \<open>
  \<^verbatim>\<open>__ainit__\<close> subscribes to the four read-backs and registers one callback on each
  subscription; \<open>callback\<close> is that registration. \<open>slot_value\<close> and \<open>store\<close> read
  and assign the attribute a callback guards.

  The specification describes the same behaviour by a static dependency map from input
  slots to recompute steps, and an acceptance rule on the stored value \<open>v\<close> and the new
  sample \<open>x\<close>. \<open>dependents\<close>, \<open>run_steps\<close>, \<open>accepts\<close> and \<open>within_deadband\<close>
  follow the specification's words, with \<open>\<bar>v - x\<bar>\<close> and 0.05 as real numbers;
  \<open>accepts_rounded\<close> is the same rule on the rounded difference and the binary64
  constant. The theorems below compare them with the callbacks.
\<close>

datatype slot = G_PI | M_PI | EXIT_GAP | G_H
datatype step = Energy_step | Bandwidth_step | Grating_step

fun callback :: "slot \<Rightarrow> rix_utilities \<Rightarrow> response \<Rightarrow> ioc \<Rightarrow> outcome" where
  "callback G_PI = g_pi_callback"
| "callback M_PI = m_pi_callback"
| "callback EXIT_GAP = exit_gap_callback"
| "callback G_H = g_h_callback"

fun slot_value :: "slot \<Rightarrow> ioc \<Rightarrow> real option" where
  "slot_value G_PI s = g_pi_value s"
| "slot_value M_PI s = m_pi_value s"
| "slot_value EXIT_GAP s = exit_gap_value s"
| "slot_value G_H s = g_h_value s"

fun store :: "slot \<Rightarrow> real \<Rightarrow> ioc \<Rightarrow> ioc" where
  "store G_PI x s = s\<lparr>g_pi_value := Some x\<rparr>"
| "store M_PI x s = s\<lparr>m_pi_value := Some x\<rparr>"
| "store EXIT_GAP x s = s\<lparr>exit_gap_value := Some x\<rparr>"
| "store G_H x s = s\<lparr>g_h_value := Some x\<rparr>"

fun dependents :: "slot \<Rightarrow> step list" where
  "dependents G_PI = [Energy_step, Bandwidth_step]"
| "dependents M_PI = [Energy_step, Bandwidth_step]"
| "dependents EXIT_GAP = [Bandwidth_step]"
| "dependents G_H = [Grating_step]"

fun run_step :: "step \<Rightarrow> rix_utilities \<Rightarrow> timestamp \<Rightarrow> ioc \<Rightarrow> outcome" where
  "run_step Energy_step = update_energy_calc"
| "run_step Bandwidth_step = update_bandwidth_calc"
| "run_step Grating_step = update_grating_calc"

fun run_steps :: "step list \<Rightarrow> rix_utilities \<Rightarrow> timestamp \<Rightarrow> ioc \<Rightarrow> outcome" where
  "run_steps [] ru ts s = (Inr (), s, [])"
| "run_steps (st # sts) ru ts s = and_then (run_step st ru ts) (run_steps sts ru ts) s"




fun concerns :: "event \<Rightarrow> step" where
  "concerns (Call_calc_E g m) = Energy_step"
| "concerns (Write_energy v t) = Energy_step"
| "concerns (Write_cff v t) = Energy_step"
| "concerns (Call_calc_BW e g m) = Bandwidth_step"
| "concerns (Write_bandwidth v t) = Bandwidth_step"
| "concerns Call_get_grating = Grating_step"
| "concerns (Write_grating v t) = Grating_step"

subsection \<open>Pairing of the energy and cff writes\<close>

text \<open>\<open>paired\<close> holds of an event list in which every energy write is followed at once
  by a cff write with the same timestamp and no cff write stands alone.
  \<open>energy_writes\<close> and \<open>cff_writes\<close> give the timestamps of the writes, in order.\<close>

fun paired :: "event list \<Rightarrow> bool" where
  "paired [] = True"
| "paired (Write_energy v t # Write_cff c t' # evs) = (t = t' \<and> paired evs)"
| "paired (Write_energy v t # evs) = False"
| "paired (Write_cff c t # evs) = False"
| "paired (ev # evs) = paired evs"

fun energy_writes :: "event list \<Rightarrow> timestamp list" where
  "energy_writes [] = []"
| "energy_writes (Write_energy v t # evs) = t # energy_writes evs"
| "energy_writes (ev # evs) = energy_writes evs"

fun cff_writes :: "event list \<Rightarrow> timestamp list" where
  "cff_writes [] = []"
| "cff_writes (Write_cff v t # evs) = t # cff_writes evs"
| "cff_writes (ev # evs) = cff_writes evs"

subsection \<open>Concrete inputs\<close>

text \<open>A calculation module and a state with all four slots set, used to instantiate the
  theorems at concrete inputs.\<close>

definition demo_utilities :: rix_utilities where
  "demo_utilities =
     \<lparr>calc_E = (\<lambda>g m. Inr (g + m, g - m)),
      calc_BW = (\<lambda>e g m. Inr (e * (g - m))),
      get_grating = (\<lambda>u. Inr ''LRG'')\<rparr>"

definition ready :: ioc where
  "ready = (init 0)\<lparr>g_pi_value := Some 10, m_pi_value := Some 5,
                       exit_gap_value := Some 2, g_h_value := Some 7\<rparr>"


subsection \<open>The stub for \<^verbatim>\<open>rix.db\<close>\<close>








section \<open>Properties\<close>

subsection \<open>Auxiliary facts\<close>

subsubsection \<open>Rounding to binary64\<close>

lemma rne_le: "y \<le> of_int N \<Longrightarrow> rne y \<le> N"
proof -
  assume le: "y \<le> of_int N"
  show ?thesis
  proof (cases "y = of_int N")
    case True
    then show ?thesis by (simp add: rne_def)
  next
    case False
    with le have "y < of_int N" by simp
    then have "\<lfloor>y\<rfloor> < N" by (simp add: floor_less_iff)
    then show ?thesis by (simp add: rne_def Let_def)
  qed
qed

lemma rne_ge: "of_int N \<le> y \<Longrightarrow> N \<le> rne y"
proof -
  assume "of_int N \<le> y"
  then have "N \<le> \<lfloor>y\<rfloor>" by (simp add: le_floor_iff)
  then show ?thesis by (simp add: rne_def Let_def)
qed

lemma rne_of_int: "rne (of_int n) = n"
  by (simp add: rne_def)

lemma round_pos_nonneg: "0 \<le> y \<Longrightarrow> 0 \<le> round_pos y"
proof -
  assume "0 \<le> y"
  then have "of_int 0 \<le> y * 2 ^ 1074 / 2 ^ nat (bitlen \<lfloor>y * 2 ^ 1074\<rfloor> - 53)"
    by simp
  then have "0 \<le> rne (y * 2 ^ 1074 / 2 ^ nat (bitlen \<lfloor>y * 2 ^ 1074\<rfloor> - 53))"
    by (rule rne_ge)
  then show ?thesis by (simp add: round_pos_def Let_def)
qed

lemma round_pos_zero: "round_pos 0 = 0"
  by (simp add: round_pos_def rne_def)

lemma float64_zero: "float64 0 = 0"
  by (simp add: float64_def)

lemma abs_float64: "\<bar>float64 x\<bar> = round_pos \<bar>x\<bar>"
  using round_pos_nonneg [of "\<bar>x\<bar>"]
  by (cases "x = 0") (simp_all add: float64_def round_pos_zero abs_mult abs_sgn_eq)

lemma float64_nonneg: "0 \<le> x \<Longrightarrow> float64 x = round_pos x"
  by (cases "x = 0") (simp_all add: float64_def round_pos_zero)

lemma rne_nearest: "\<bar>y - of_int m\<bar> < 1 / 2 \<Longrightarrow> rne y = m"
proof (cases "of_int m \<le> y")
  case True
  assume "\<bar>y - of_int m\<bar> < 1 / 2"
  with True have "\<lfloor>y\<rfloor> = m" "y - of_int m < 1 / 2"
    by (simp_all add: floor_eq_iff)
  then show ?thesis by (simp add: rne_def)
next
  case False
  assume "\<bar>y - of_int m\<bar> < 1 / 2"
  with False have "\<lfloor>y\<rfloor> = m - 1" "1 / 2 < y - of_int (m - 1)"
    by (simp_all add: floor_eq_iff)
  then show ?thesis by (simp add: rne_def)
qed

lemma bitlen_le_pow: "x < 2 ^ n \<Longrightarrow> bitlen x \<le> int n"
  using bitlen_le_iff_power [of x "int n"] by simp

lemma bitlen_ge_pow: "2 ^ n \<le> x \<Longrightarrow> int n + 1 \<le> bitlen x"
proof -
  assume "2 ^ n \<le> x"
  moreover have "nat (int n + 1) - 1 = n" by simp
  ultimately show ?thesis by (simp only: bitlen_ge_iff_power) simp
qed

text \<open>The rounding step on a scaled value \<open>M\<close>, against a 53-bit value \<open>m * 2 ^ k0\<close>.\<close>

lemma bitlen_scaled:
  assumes lo: "(2::real) ^ 52 * 2 ^ k0 \<le> M" and hi: "M < 2 ^ 53 * 2 ^ k0"
  shows "nat (bitlen \<lfloor>M\<rfloor> - 53) = k0"
proof -
  from lo have "of_int (2 ^ (52 + k0)) \<le> M" by (simp add: power_add)
  then have "2 ^ (52 + k0) \<le> \<lfloor>M\<rfloor>" by (simp only: le_floor_iff)
  then have ge: "int (52 + k0) + 1 \<le> bitlen \<lfloor>M\<rfloor>"
    by (rule bitlen_ge_pow)
  from hi have "M < of_int (2 ^ (53 + k0))" by (simp add: power_add)
  then have "\<lfloor>M\<rfloor> < 2 ^ (53 + k0)" by (simp only: floor_less_iff)
  then have "bitlen \<lfloor>M\<rfloor> \<le> int (53 + k0)"
    by (rule bitlen_le_pow)
  with ge show ?thesis by simp
qed

lemma round_upper_gen:
  assumes le: "M \<le> of_int m * 2 ^ k0" and m: "m < 2 ^ 53"
  shows "of_int (rne (M / 2 ^ nat (bitlen \<lfloor>M\<rfloor> - 53))) * 2 ^ nat (bitlen \<lfloor>M\<rfloor> - 53)
    \<le> (of_int m * 2 ^ k0 :: real)"
proof -
  define k where "k = nat (bitlen \<lfloor>M\<rfloor> - 53)"
  from m have "(of_int m :: real) < of_int (2 ^ 53)" by (simp only: of_int_less_iff)
  then have "(of_int m :: real) * 2 ^ k0 < of_int (2 ^ 53) * 2 ^ k0" by simp
  with le have "M < of_int (2 ^ 53) * 2 ^ k0" by (rule le_less_trans)
  then have "M < of_int (2 ^ (53 + k0))" by (simp add: power_add)
  then have "\<lfloor>M\<rfloor> < 2 ^ (53 + k0)" by (simp only: floor_less_iff)
  then have "bitlen \<lfloor>M\<rfloor> \<le> int (53 + k0)"
    by (rule bitlen_le_pow)
  then have k: "k \<le> k0" by (simp add: k_def)
  define N :: int where "N = m * 2 ^ (k0 - k)"
  have "(2::real) ^ (k0 - k) * 2 ^ k = 2 ^ k0"
    using k by (simp flip: power_add)
  then have N: "of_int N * 2 ^ k = (of_int m * 2 ^ k0 :: real)"
    by (simp add: N_def)
  with le have "M \<le> of_int N * 2 ^ k" by simp
  then have "M / 2 ^ k \<le> of_int N" by (simp add: field_simps)
  then have "rne (M / 2 ^ k) \<le> N" by (rule rne_le)
  then have "(of_int (rne (M / 2 ^ k)) :: real) \<le> of_int N" by (simp only: of_int_le_iff)
  then have "of_int (rne (M / 2 ^ k)) * 2 ^ k \<le> of_int N * (2 ^ k :: real)" by simp
  then have "of_int (rne (M / 2 ^ k)) * 2 ^ k \<le> (of_int m * 2 ^ k0 :: real)" by (simp only: N)
  then show ?thesis unfolding k_def .
qed

lemma round_lower_pow:
  assumes ge: "(2::real) ^ j \<le> M" and j: "52 \<le> j"
  shows "(2::real) ^ j
    \<le> of_int (rne (M / 2 ^ nat (bitlen \<lfloor>M\<rfloor> - 53))) * 2 ^ nat (bitlen \<lfloor>M\<rfloor> - 53)"
proof -
  define b where "b = bitlen \<lfloor>M\<rfloor>"
  define k where "k = nat (b - 53)"
  from ge have "of_int (2 ^ j) \<le> M" by simp
  then have fl: "2 ^ j \<le> \<lfloor>M\<rfloor>" by (simp only: le_floor_iff)
  have "(0::int) < 2 ^ j" by simp
  with fl have pos: "0 < \<lfloor>M\<rfloor>" by linarith
  from fl have b: "int j + 1 \<le> b"
    unfolding b_def by (rule bitlen_ge_pow)
  with j have kb: "52 + k = nat (b - 1)" by (simp add: k_def)
  from b have n: "j \<le> nat (b - 1)" by simp
  from bitlen_bounds [OF pos] have "2 ^ nat (b - 1) \<le> \<lfloor>M\<rfloor>" by (simp add: b_def)
  then have "(of_int (2 ^ nat (b - 1)) :: real) \<le> of_int \<lfloor>M\<rfloor>" by (simp only: of_int_le_iff)
  also have "\<dots> \<le> M" by simp
  finally have "(2::real) ^ (52 + k) \<le> M" by (simp add: kb)
  then have "of_int (2 ^ 52) * (2::real) ^ k \<le> M" by (simp add: power_add)
  then have "of_int (2 ^ 52) \<le> M / 2 ^ k" by (simp add: field_simps)
  then have "2 ^ 52 \<le> rne (M / 2 ^ k)" by (rule rne_ge)
  then have "(of_int (2 ^ 52) :: real) \<le> of_int (rne (M / 2 ^ k))" by (simp only: of_int_le_iff)
  then have A: "(2::real) ^ (52 + k) \<le> of_int (rne (M / 2 ^ k)) * 2 ^ k"
    by (simp add: power_add)
  have B: "(2::real) ^ j \<le> 2 ^ (52 + k)"
    using n by (simp only: kb power_increasing_iff)
  from B A have "(2::real) ^ j \<le> of_int (rne (M / 2 ^ k)) * 2 ^ k"
    by (rule order_trans)
  then show ?thesis unfolding k_def b_def .
qed

lemma round_nearest_gen:
  assumes near: "\<bar>M - of_int m * 2 ^ k0\<bar> < 2 ^ k0 / 2"
    and lo: "(2::real) ^ 52 * 2 ^ k0 \<le> M" and hi: "M < 2 ^ 53 * 2 ^ k0"
  shows "of_int (rne (M / 2 ^ nat (bitlen \<lfloor>M\<rfloor> - 53))) * 2 ^ nat (bitlen \<lfloor>M\<rfloor> - 53)
    = (of_int m * 2 ^ k0 :: real)"
proof -
  have "M / 2 ^ k0 - of_int m = (M - of_int m * 2 ^ k0) / 2 ^ k0"
    by (simp add: field_simps)
  then have "\<bar>M / 2 ^ k0 - of_int m\<bar> = \<bar>M - of_int m * 2 ^ k0\<bar> / 2 ^ k0"
    by (simp add: abs_divide)
  also have "\<dots> < 1 / 2"
    using near by (simp add: field_simps)
  finally have "rne (M / 2 ^ k0) = m" by (rule rne_nearest)
  then show ?thesis by (simp only: bitlen_scaled [OF lo hi])
qed

text \<open>Splitting the scale \<open>2 ^ 1074\<close>, so that no large power is ever evaluated.\<close>

lemma scale_1017: "(2::real) ^ 1074 = 2 ^ 57 * 2 ^ 1017"
proof -
  have "(1074::nat) = 57 + 1017" by simp
  then have "(2::real) ^ 1074 = 2 ^ (57 + 1017)" by (rule arg_cong)
  then show ?thesis by (simp only: power_add)
qed

lemma scale_1018: "(2::real) ^ 1074 = 2 ^ 56 * 2 ^ 1018"
proof -
  have "(1074::nat) = 56 + 1018" by simp
  then have "(2::real) ^ 1074 = 2 ^ (56 + 1018)" by (rule arg_cong)
  then show ?thesis by (simp only: power_add)
qed

lemma round_pos_upper:
  assumes y: "y \<le> 1 / 20"
  shows "round_pos y \<le> 3602879701896397 / 2 ^ 56"
proof -
  define P where "P = (2::real) ^ 1017"
  have P: "0 < P" by (simp only: P_def zero_less_power zero_less_numeral)
  have s: "(2::real) ^ 1074 = 2 ^ 57 * P" by (simp only: scale_1017 P_def)
  define X where "X = of_int (rne (y * 2 ^ 1074 / 2 ^ nat (bitlen \<lfloor>y * 2 ^ 1074\<rfloor> - 53)))
    * (2::real) ^ nat (bitlen \<lfloor>y * 2 ^ 1074\<rfloor> - 53)"
  from y P have "y * (2 ^ 57 * P) \<le> 1 / 20 * (2 ^ 57 * P)"
    by (simp only: mult_le_cancel_right) simp
  also from P have "\<dots> \<le> of_int 7205759403792794 * P" by simp
  finally have "y * 2 ^ 1074 \<le> of_int 7205759403792794 * 2 ^ 1017"
    by (simp only: s P_def)
  then have "X \<le> of_int 7205759403792794 * 2 ^ 1017"
    unfolding X_def by (rule round_upper_gen) simp
  then have "X \<le> 7205759403792794 * P" by (simp only: P_def of_int_numeral)
  then have "X / (2 ^ 57 * P) \<le> 7205759403792794 * P / (2 ^ 57 * P)"
    by (rule divide_right_mono) (use P in simp)
  also from P have "\<dots> = 3602879701896397 / 2 ^ 56" by simp
  finally have "X / 2 ^ 1074 \<le> 3602879701896397 / 2 ^ 56" by (simp only: s)
  then show ?thesis unfolding round_pos_def Let_def X_def .
qed

lemma round_pos_lower:
  assumes y: "1 / 16 \<le> y"
  shows "1 / 16 \<le> round_pos y"
proof -
  define P where "P = (2::real) ^ 1070"
  have P: "0 < P" by (simp only: P_def zero_less_power zero_less_numeral)
  have "(1074::nat) = 4 + 1070" by simp
  then have "(2::real) ^ 1074 = 2 ^ (4 + 1070)" by (rule arg_cong)
  then have s: "(2::real) ^ 1074 = 2 ^ 4 * P" by (simp only: power_add P_def)
  define X where "X = of_int (rne (y * 2 ^ 1074 / 2 ^ nat (bitlen \<lfloor>y * 2 ^ 1074\<rfloor> - 53)))
    * (2::real) ^ nat (bitlen \<lfloor>y * 2 ^ 1074\<rfloor> - 53)"
  from P have "P = 1 / 16 * (2 ^ 4 * P)" by simp
  also from y P have "\<dots> \<le> y * (2 ^ 4 * P)"
    by (simp only: mult_le_cancel_right) simp
  finally have "(2::real) ^ 1070 \<le> y * 2 ^ 1074" by (simp only: s P_def)
  then have "(2::real) ^ 1070 \<le> X"
    unfolding X_def by (rule round_lower_pow) simp
  then have "P \<le> X" by (simp only: P_def)
  then have "P / (2 ^ 4 * P) \<le> X / (2 ^ 4 * P)"
    by (rule divide_right_mono) (use P in simp)
  moreover from P have "P / (2 ^ 4 * P) = 1 / 16" by simp
  ultimately have "1 / 16 \<le> X / 2 ^ 1074" by (simp only: s)
  then show ?thesis unfolding round_pos_def Let_def X_def .
qed

lemma round_pos_nearest:
  assumes near: "\<bar>y * 2 ^ 57 - of_int m\<bar> < 1 / 2"
    and lo: "2 ^ 52 \<le> y * 2 ^ 57" and hi: "y * 2 ^ 57 < 2 ^ 53"
  shows "round_pos y = of_int m / 2 ^ 57"
proof -
  define P where "P = (2::real) ^ 1017"
  have P: "0 < P" by (simp only: P_def zero_less_power zero_less_numeral)
  have s: "(2::real) ^ 1074 = 2 ^ 57 * P" by (simp only: scale_1017 P_def)
  define X where "X = of_int (rne (y * 2 ^ 1074 / 2 ^ nat (bitlen \<lfloor>y * 2 ^ 1074\<rfloor> - 53)))
    * (2::real) ^ nat (bitlen \<lfloor>y * 2 ^ 1074\<rfloor> - 53)"
  have "y * (2 ^ 57 * P) - of_int m * P = (y * 2 ^ 57 - of_int m) * P"
    by (simp only: left_diff_distrib mult.assoc)
  then have "\<bar>y * (2 ^ 57 * P) - of_int m * P\<bar> = \<bar>y * 2 ^ 57 - of_int m\<bar> * \<bar>P\<bar>"
    by (simp only: abs_mult)
  also from P have "\<dots> = \<bar>y * 2 ^ 57 - of_int m\<bar> * P" by (simp only: abs_of_pos)
  also from near P have "\<dots> < 1 / 2 * P" by (simp only: mult_less_cancel_right) simp
  finally have n: "\<bar>y * 2 ^ 1074 - of_int m * 2 ^ 1017\<bar> < 2 ^ 1017 / 2"
    by (simp only: s P_def)
  from lo P have "2 ^ 52 * P \<le> y * 2 ^ 57 * P" by (simp only: mult_le_cancel_right) simp
  then have l: "(2::real) ^ 52 * 2 ^ 1017 \<le> y * 2 ^ 1074"
    by (simp only: s P_def mult.assoc)
  from hi P have "y * 2 ^ 57 * P < 2 ^ 53 * P" by (simp only: mult_less_cancel_right) simp
  then have h: "y * 2 ^ 1074 < (2::real) ^ 53 * 2 ^ 1017"
    by (simp only: s P_def mult.assoc)
  have "X = of_int m * 2 ^ 1017"
    unfolding X_def by (rule round_nearest_gen [OF n l h])
  then have "X / (2 ^ 57 * P) = of_int m * P / (2 ^ 57 * P)" by (simp only: P_def)
  also from P have "\<dots> = of_int m / 2 ^ 57" by simp
  finally have "X / 2 ^ 1074 = of_int m / 2 ^ 57" by (simp only: s)
  then show ?thesis unfolding round_pos_def Let_def X_def .
qed

lemma round_pos_0_05: "round_pos (1 / 20) = 3602879701896397 / 2 ^ 56"
  using round_pos_nearest [of "1 / 20" 7205759403792794] by simp

lemma round_pos_double_0_05:
  "round_pos (3602879701896397 / 2 ^ 56) = 3602879701896397 / 2 ^ 56"
  using round_pos_nearest [of "3602879701896397 / 2 ^ 56" 7205759403792794] by simp

lemma DEADBAND_value: "DEADBAND = 3602879701896397 / 2 ^ 56"
  using round_pos_0_05 by (simp add: DEADBAND_def float64_nonneg)

lemma float64_DEADBAND: "float64 DEADBAND = DEADBAND"
  using round_pos_double_0_05 by (simp add: DEADBAND_value float64_nonneg)

lemma isclose_DEADBAND: "isclose a b 0 DEADBAND = (round_pos \<bar>a - b\<bar> \<le> DEADBAND)"
  by (simp add: isclose_def float64_zero float64_DEADBAND abs_float64)

lemma isclose_near: "\<bar>a - b\<bar> \<le> 1 / 20 \<Longrightarrow> isclose a b 0 DEADBAND"
  using round_pos_upper [of "\<bar>a - b\<bar>"] by (simp only: isclose_DEADBAND) (simp only: DEADBAND_value)

lemma isclose_far: "1 / 16 \<le> \<bar>a - b\<bar> \<Longrightarrow> \<not> isclose a b 0 DEADBAND"
proof -
  assume "1 / 16 \<le> \<bar>a - b\<bar>"
  then have "1 / 16 \<le> round_pos \<bar>a - b\<bar>" by (rule round_pos_lower)
  moreover have "(3602879701896397 / 2 ^ 56 :: real) < 1 / 16" by simp
  ultimately have "\<not> round_pos \<bar>a - b\<bar> \<le> 3602879701896397 / 2 ^ 56" by linarith
  then have "\<not> round_pos \<bar>a - b\<bar> \<le> DEADBAND" unfolding DEADBAND_value .
  then show ?thesis unfolding isclose_DEADBAND .
qed

subsubsection \<open>The acceptance rule\<close>




lemma update_energy_calc_unset:
  "g_pi_value s = None \<or> m_pi_value s = None \<Longrightarrow>
   update_energy_calc ru ts s =
     (Inr (), s\<lparr>energy := \<lparr>pv_value = 0, pv_timestamp = ts\<rparr>, cff := \<lparr>pv_value = 0, pv_timestamp = ts\<rparr>\<rparr>,
      [Write_energy 0 ts, Write_cff 0 ts])"
  by (auto simp: update_energy_calc_def calculate_energy_def split: option.splits)

lemma update_energy_calc_set:
  "g_pi_value s = Some g \<Longrightarrow> m_pi_value s = Some m \<Longrightarrow>
   update_energy_calc ru ts s =
     (case calc_E ru g m of
        Inl e \<Rightarrow> (Inl e, s, [Call_calc_E g m])
      | Inr (en, c) \<Rightarrow>
          (Inr (), s\<lparr>energy := \<lparr>pv_value = en, pv_timestamp = ts\<rparr>, cff := \<lparr>pv_value = c, pv_timestamp = ts\<rparr>\<rparr>,
           [Call_calc_E g m, Write_energy en ts, Write_cff c ts]))"
  by (simp add: update_energy_calc_def calculate_energy_def split: sum.splits prod.splits)

lemma update_bandwidth_calc_unset:
  "g_pi_value s = None \<or> m_pi_value s = None \<or> exit_gap_value s = None \<Longrightarrow>
   update_bandwidth_calc ru ts s =
     (Inr (), s\<lparr>bandwidth := \<lparr>pv_value = 0, pv_timestamp = ts\<rparr>\<rparr>, [Write_bandwidth 0 ts])"
  by (auto simp: update_bandwidth_calc_def calculate_bandwidth_def split: option.splits)

lemma update_bandwidth_calc_set:
  "g_pi_value s = Some g \<Longrightarrow> m_pi_value s = Some m \<Longrightarrow> exit_gap_value s = Some e \<Longrightarrow>
   update_bandwidth_calc ru ts s =
     (case calc_BW ru e g m of
        Inl ex \<Rightarrow> (Inl ex, s, [Call_calc_BW e g m])
      | Inr bw \<Rightarrow>
          (Inr (), s\<lparr>bandwidth := \<lparr>pv_value = bw, pv_timestamp = ts\<rparr>\<rparr>,
           [Call_calc_BW e g m, Write_bandwidth bw ts]))"
  by (simp add: update_bandwidth_calc_def calculate_bandwidth_def split: sum.splits)

lemma update_grating_calc_unset:
  "g_h_value s = None \<Longrightarrow>
   update_grating_calc ru ts s =
     (Inr (), s\<lparr>grating := \<lparr>pv_value = [], pv_timestamp = ts\<rparr>\<rparr>, [Write_grating [] ts])"
  by (simp add: update_grating_calc_def calculate_grating_def)

lemma update_grating_calc_set:
  "g_h_value s = Some h \<Longrightarrow>
   update_grating_calc ru ts s =
     (case get_grating ru () of
        Inl ex \<Rightarrow> (Inl ex, s, [Call_get_grating])
      | Inr name \<Rightarrow>
          (Inr (), s\<lparr>grating := \<lparr>pv_value = name, pv_timestamp = ts\<rparr>\<rparr>,
           [Call_get_grating, Write_grating name ts]))"
  by (simp add: update_grating_calc_def calculate_grating_def split: sum.splits)

lemma events_of_simp: "events_of (r, s, evs) = evs"
  by (simp add: events_of_def)

lemma state_of_simp: "state_of (r, s, evs) = s"
  by (simp add: state_of_def)

lemma callback_unfold:
  "callback sl ru resp s =
     (if moved (slot_value sl s) (data resp)
      then run_steps (dependents sl) ru (metadata_timestamp resp) (store sl (data resp) s)
      else (Inr (), s, []))"
  by (cases sl)
     (simp_all add: g_pi_callback_def m_pi_callback_def exit_gap_callback_def g_h_callback_def
        and_then_def split: prod.splits sum.splits)





lemma state_of_and_then:
  "state_of (and_then f g s) =
     (if raised (f s) then state_of (f s) else state_of (g (state_of (f s))))"
  by (simp add: and_then_def state_of_def raised_def split: prod.splits sum.splits)



lemma events_of_and_then:
  "events_of (and_then f g s) =
     (if raised (f s) then events_of (f s)
      else events_of (f s) @ events_of (g (state_of (f s))))"
  by (simp add: and_then_def state_of_def events_of_def raised_def split: prod.splits sum.splits)



subsection \<open>The deadband rule\<close>




lemmas eval_defs =
  g_pi_callback_def m_pi_callback_def exit_gap_callback_def g_h_callback_def
  moved_def isclose_near isclose_far and_then_def
  update_energy_calc_def update_bandwidth_calc_def update_grating_calc_def
  calculate_energy_def calculate_bandwidth_def calculate_grating_def
  events_of_def state_of_def raised_def

subsection \<open>Defaults before the inputs are ready\<close>

text \<open>
  Claim C2. Whenever a recompute step runs while one of its required slots is unset, it
  publishes the default (0 for energy, cff and bandwidth, the empty string for the
  grating) with the given timestamp, and its only events are those writes: the external
  function is not called. Conversely, a call of \<open>calc_E\<close>, \<open>calc_BW\<close> or
  \<open>get_grating\<close> among the events of a step means that all slots the step requires
  were set, and the call carries their values.
\<close>

theorem default_before_ready:
  "(g_pi_value s = None \<or> m_pi_value s = None \<longrightarrow>
      update_energy_calc ru ts s =
        (Inr (),
         s\<lparr>energy := \<lparr>pv_value = 0, pv_timestamp = ts\<rparr>,
           cff := \<lparr>pv_value = 0, pv_timestamp = ts\<rparr>\<rparr>,
         [Write_energy 0 ts, Write_cff 0 ts]))
   \<and> (g_pi_value s = None \<or> m_pi_value s = None \<or> exit_gap_value s = None \<longrightarrow>
      update_bandwidth_calc ru ts s =
        (Inr (), s\<lparr>bandwidth := \<lparr>pv_value = 0, pv_timestamp = ts\<rparr>\<rparr>, [Write_bandwidth 0 ts]))
   \<and> (g_h_value s = None \<longrightarrow>
      update_grating_calc ru ts s =
        (Inr (), s\<lparr>grating := \<lparr>pv_value = [], pv_timestamp = ts\<rparr>\<rparr>, [Write_grating [] ts]))
   \<and> (Call_calc_E g m \<in> set (events_of (update_energy_calc ru ts s)) \<longrightarrow>
      g_pi_value s = Some g \<and> m_pi_value s = Some m)
   \<and> (Call_calc_BW e g m \<in> set (events_of (update_bandwidth_calc ru ts s)) \<longrightarrow>
      exit_gap_value s = Some e \<and> g_pi_value s = Some g \<and> m_pi_value s = Some m)
   \<and> (Call_get_grating \<in> set (events_of (update_grating_calc ru ts s)) \<longrightarrow>
      g_h_value s \<noteq> None)"
proof -
  have e: "Call_calc_E g m \<in> set (events_of (update_energy_calc ru ts s)) \<Longrightarrow>
      g_pi_value s = Some g \<and> m_pi_value s = Some m"
    by (auto simp: update_energy_calc_def calculate_energy_def events_of_def
        split: option.splits sum.splits prod.splits)
  have b: "Call_calc_BW e g m \<in> set (events_of (update_bandwidth_calc ru ts s)) \<Longrightarrow>
      exit_gap_value s = Some e \<and> g_pi_value s = Some g \<and> m_pi_value s = Some m"
    by (auto simp: update_bandwidth_calc_def calculate_bandwidth_def events_of_def
        split: option.splits sum.splits prod.splits)
  have h: "Call_get_grating \<in> set (events_of (update_grating_calc ru ts s)) \<Longrightarrow>
      g_h_value s \<noteq> None"
    by (auto simp: update_grating_calc_def calculate_grating_def events_of_def
        split: option.splits sum.splits prod.splits)
  show ?thesis
  proof (intro conjI impI)
    assume "g_pi_value s = None \<or> m_pi_value s = None"
    then show "update_energy_calc ru ts s =
        (Inr (),
         s\<lparr>energy := \<lparr>pv_value = 0, pv_timestamp = ts\<rparr>,
           cff := \<lparr>pv_value = 0, pv_timestamp = ts\<rparr>\<rparr>,
         [Write_energy 0 ts, Write_cff 0 ts])"
      by (rule update_energy_calc_unset)
  next
    assume "g_pi_value s = None \<or> m_pi_value s = None \<or> exit_gap_value s = None"
    then show "update_bandwidth_calc ru ts s =
        (Inr (), s\<lparr>bandwidth := \<lparr>pv_value = 0, pv_timestamp = ts\<rparr>\<rparr>, [Write_bandwidth 0 ts])"
      by (rule update_bandwidth_calc_unset)
  next
    assume "g_h_value s = None"
    then show "update_grating_calc ru ts s =
        (Inr (), s\<lparr>grating := \<lparr>pv_value = [], pv_timestamp = ts\<rparr>\<rparr>, [Write_grating [] ts])"
      by (rule update_grating_calc_unset)
  qed (use e b h in simp_all)
qed

theorem default_before_ready_witness:
  "g_pi_value (init 0) = None
   \<and> update_energy_calc demo_utilities 1 (init 0) =
       (Inr (),
        (init 0)\<lparr>energy := \<lparr>pv_value = 0, pv_timestamp = 1\<rparr>,
                 cff := \<lparr>pv_value = 0, pv_timestamp = 1\<rparr>\<rparr>,
        [Write_energy 0 1, Write_cff 0 1])
   \<and> update_bandwidth_calc demo_utilities 1 (init 0) =
       (Inr (), (init 0)\<lparr>bandwidth := \<lparr>pv_value = 0, pv_timestamp = 1\<rparr>\<rparr>, [Write_bandwidth 0 1])
   \<and> g_h_value (init 0) = None
   \<and> update_grating_calc demo_utilities 1 (init 0) =
       (Inr (), (init 0)\<lparr>grating := \<lparr>pv_value = [], pv_timestamp = 1\<rparr>\<rparr>, [Write_grating [] 1])
   \<and> Call_calc_E 10 5 \<in> set (events_of (update_energy_calc demo_utilities 1 ready))
   \<and> g_pi_value ready = Some 10 \<and> m_pi_value ready = Some 5
   \<and> Call_calc_BW 2 10 5 \<in> set (events_of (update_bandwidth_calc demo_utilities 1 ready))
   \<and> exit_gap_value ready = Some 2
   \<and> Call_get_grating \<in> set (events_of (update_grating_calc demo_utilities 1 ready))
   \<and> g_h_value ready \<noteq> None"
proof -
  have unset: "g_pi_value (init 0) = None" "g_h_value (init 0) = None"
    by (simp_all add: init_def)
  have calls:
    "Call_calc_E 10 5 \<in> set (events_of (update_energy_calc demo_utilities 1 ready))"
    "Call_calc_BW 2 10 5 \<in> set (events_of (update_bandwidth_calc demo_utilities 1 ready))"
    "Call_get_grating \<in> set (events_of (update_grating_calc demo_utilities 1 ready))"
    by (simp_all add: eval_defs ready_def init_def demo_utilities_def)
  from calls default_before_ready [of ready demo_utilities 1 10 5 2]
  have sets: "g_pi_value ready = Some 10" "m_pi_value ready = Some 5"
    "exit_gap_value ready = Some 2" "g_h_value ready \<noteq> None"
    by blast+
  from unset default_before_ready [of "init 0" demo_utilities 1 10 5 2]
  have 1: "update_energy_calc demo_utilities 1 (init 0) =
       (Inr (),
        (init 0)\<lparr>energy := \<lparr>pv_value = 0, pv_timestamp = 1\<rparr>,
                 cff := \<lparr>pv_value = 0, pv_timestamp = 1\<rparr>\<rparr>,
        [Write_energy 0 1, Write_cff 0 1])"
    and 2: "update_bandwidth_calc demo_utilities 1 (init 0) =
       (Inr (), (init 0)\<lparr>bandwidth := \<lparr>pv_value = 0, pv_timestamp = 1\<rparr>\<rparr>, [Write_bandwidth 0 1])"
    and 3: "update_grating_calc demo_utilities 1 (init 0) =
       (Inr (), (init 0)\<lparr>grating := \<lparr>pv_value = [], pv_timestamp = 1\<rparr>\<rparr>, [Write_grating [] 1])"
    by blast+
  from unset calls sets 1 2 3 show ?thesis by blast
qed

lemma run_step_frame:
  "(st \<noteq> Energy_step \<longrightarrow>
      energy (state_of (run_step st ru ts s)) = energy s \<and>
      cff (state_of (run_step st ru ts s)) = cff s)
   \<and> (st \<noteq> Bandwidth_step \<longrightarrow> bandwidth (state_of (run_step st ru ts s)) = bandwidth s)
   \<and> (st \<noteq> Grating_step \<longrightarrow> grating (state_of (run_step st ru ts s)) = grating s)"
  by (cases st)
     (simp_all add: update_energy_calc_def update_bandwidth_calc_def update_grating_calc_def
        state_of_def split: prod.splits sum.splits)

lemma run_step_concerns:
  "ev \<in> set (events_of (run_step st ru ts s)) \<Longrightarrow> concerns ev = st"
  by (cases st)
     (auto simp: update_energy_calc_def update_bandwidth_calc_def update_grating_calc_def
        calculate_energy_def calculate_bandwidth_def calculate_grating_def events_of_def
        split: prod.splits sum.splits option.splits)

lemma run_steps_frame:
  "(Energy_step \<notin> set sts \<longrightarrow>
      energy (state_of (run_steps sts ru ts s)) = energy s \<and>
      cff (state_of (run_steps sts ru ts s)) = cff s)
   \<and> (Bandwidth_step \<notin> set sts \<longrightarrow> bandwidth (state_of (run_steps sts ru ts s)) = bandwidth s)
   \<and> (Grating_step \<notin> set sts \<longrightarrow> grating (state_of (run_steps sts ru ts s)) = grating s)"
proof (induction sts arbitrary: s)
  case Nil
  show ?case by (simp add: state_of_def)
next
  case (Cons st sts)
  from Cons.IH [of "state_of (run_step st ru ts s)"] run_step_frame [of st ru ts s]
  show ?case by (auto simp: state_of_and_then)
qed

lemma run_steps_concerns:
  "ev \<in> set (events_of (run_steps sts ru ts s)) \<Longrightarrow> concerns ev \<in> set sts"
proof (induction sts arbitrary: s)
  case Nil
  then show ?case by (simp add: events_of_def)
next
  case (Cons st sts)
  then show ?case
    by (auto simp: events_of_and_then dest: run_step_concerns split: if_splits)
qed

lemma store_outputs:
  "energy (store sl x s) = energy s \<and> cff (store sl x s) = cff s \<and>
   bandwidth (store sl x s) = bandwidth s \<and> grating (store sl x s) = grating s"
  by (cases sl) simp_all

lemma callback_frame:
  "(Energy_step \<notin> set (dependents sl) \<longrightarrow>
      energy (state_of (callback sl ru resp s)) = energy s \<and>
      cff (state_of (callback sl ru resp s)) = cff s)
   \<and> (Bandwidth_step \<notin> set (dependents sl) \<longrightarrow>
      bandwidth (state_of (callback sl ru resp s)) = bandwidth s)
   \<and> (Grating_step \<notin> set (dependents sl) \<longrightarrow>
      grating (state_of (callback sl ru resp s)) = grating s)"
  using run_steps_frame [of "dependents sl" ru "metadata_timestamp resp" "store sl (data resp) s"]
  by (simp add: callback_unfold store_outputs state_of_simp)

lemma callback_concerns:
  "ev \<in> set (events_of (callback sl ru resp s)) \<Longrightarrow> concerns ev \<in> set (dependents sl)"
  using run_steps_concerns [of ev "dependents sl" ru "metadata_timestamp resp" "store sl (data resp) s"]
  by (simp add: callback_unfold events_of_simp split: if_splits)

subsection \<open>Isolation of the outputs\<close>

text \<open>
  Claim C3. Processing an exit-gap sample leaves the energy, cff and grating records as
  they were, and every event it produces belongs to the bandwidth step. Processing a
  grating-horizontal sample leaves the energy, cff and bandwidth records as they were,
  and every event it produces belongs to the grating step. The two pitch callbacks leave
  the grating record as it was. For every slot, each event of its callback belongs to a
  step the dependency map lists for the slot.
\<close>

theorem cross_dependency_isolation:
  "energy (state_of (exit_gap_callback ru resp s)) = energy s
   \<and> cff (state_of (exit_gap_callback ru resp s)) = cff s
   \<and> grating (state_of (exit_gap_callback ru resp s)) = grating s
   \<and> (\<forall>ev \<in> set (events_of (exit_gap_callback ru resp s)). concerns ev = Bandwidth_step)
   \<and> energy (state_of (g_h_callback ru resp s)) = energy s
   \<and> cff (state_of (g_h_callback ru resp s)) = cff s
   \<and> bandwidth (state_of (g_h_callback ru resp s)) = bandwidth s
   \<and> (\<forall>ev \<in> set (events_of (g_h_callback ru resp s)). concerns ev = Grating_step)
   \<and> grating (state_of (g_pi_callback ru resp s)) = grating s
   \<and> grating (state_of (m_pi_callback ru resp s)) = grating s
   \<and> (\<forall>ev \<in> set (events_of (callback sl ru resp s)). concerns ev \<in> set (dependents sl))"
  using callback_frame [of EXIT_GAP ru resp s] callback_frame [of G_H ru resp s]
    callback_frame [of G_PI ru resp s] callback_frame [of M_PI ru resp s]
    callback_concerns [of _ EXIT_GAP ru resp s] callback_concerns [of _ G_H ru resp s]
    callback_concerns [of _ sl ru resp s]
  by simp

theorem cross_dependency_isolation_witness:
  "events_of (exit_gap_callback demo_utilities \<lparr>data = 3, metadata_timestamp = 9\<rparr> ready)
     = [Call_calc_BW 3 10 5, Write_bandwidth 15 9]
   \<and> concerns (Call_calc_BW 3 10 5) = Bandwidth_step
   \<and> concerns (Write_bandwidth 15 9) = Bandwidth_step
   \<and> energy (state_of (exit_gap_callback demo_utilities \<lparr>data = 3, metadata_timestamp = 9\<rparr> ready))
     = energy ready
   \<and> events_of (g_h_callback demo_utilities \<lparr>data = 8, metadata_timestamp = 9\<rparr> ready)
     = [Call_get_grating, Write_grating ''LRG'' 9]
   \<and> concerns Call_get_grating = Grating_step
   \<and> concerns (Write_grating ''LRG'' 9) = Grating_step
   \<and> bandwidth (state_of (g_h_callback demo_utilities \<lparr>data = 8, metadata_timestamp = 9\<rparr> ready))
     = bandwidth ready"
proof -
  let ?r = "\<lparr>data = 3, metadata_timestamp = 9\<rparr>"
  let ?h = "\<lparr>data = 8, metadata_timestamp = 9\<rparr>"
  have ev: "events_of (exit_gap_callback demo_utilities ?r ready)
      = [Call_calc_BW 3 10 5, Write_bandwidth 15 9]"
    by (simp add: eval_defs ready_def init_def demo_utilities_def)
  have evh: "events_of (g_h_callback demo_utilities ?h ready)
      = [Call_get_grating, Write_grating ''LRG'' 9]"
    by (simp add: eval_defs ready_def init_def demo_utilities_def)
  from ev evh cross_dependency_isolation [of demo_utilities ?r ready EXIT_GAP]
    cross_dependency_isolation [of demo_utilities ?h ready G_H]
  show ?thesis by simp
qed

subsection \<open>The start-up scenario\<close>

text \<open>
  Claim C4 says that after the mirror-pitch sample both the energy and the bandwidth
  calculation are invoked with (10.0, 5.0) and their results published. The bandwidth
  calculation also needs the exit gap, which is still unset: the handler's only external
  call is \<open>calc_E 10 5\<close>, and the bandwidth record receives the default 0, not a
  calculated value.
\<close>

theorem scenario_bandwidth_counterexample:
  "events_of (m_pi_callback demo_utilities \<lparr>data = 5, metadata_timestamp = 2\<rparr>
      (state_of (g_pi_callback demo_utilities \<lparr>data = 10, metadata_timestamp = 1\<rparr> (init 0))))
     = [Call_calc_E 10 5, Write_energy 15 2, Write_cff 5 2, Write_bandwidth 0 2]
   \<and> exit_gap_value
        (state_of (g_pi_callback demo_utilities \<lparr>data = 10, metadata_timestamp = 1\<rparr> (init 0)))
     = None
   \<and> bandwidth
        (state_of (m_pi_callback demo_utilities \<lparr>data = 5, metadata_timestamp = 2\<rparr>
          (state_of (g_pi_callback demo_utilities \<lparr>data = 10, metadata_timestamp = 1\<rparr> (init 0)))))
     = \<lparr>pv_value = 0, pv_timestamp = 2\<rparr>"
  by (simp add: eval_defs init_def demo_utilities_def)

text \<open>
  Claim C4, amended. From the initial state, a grating-pitch sample 10.0 with timestamp
  \<open>t1\<close> is stored, and energy, cff and bandwidth are published with their default 0 (the
  mirror pitch is unset) without any external call. A mirror-pitch sample 5.0 with
  timestamp \<open>t2\<close> then invokes the energy calculation with (10.0, 5.0), its only external
  call; when it returns \<open>(en, c)\<close> the handler publishes energy \<open>en\<close> and cff \<open>c\<close> with
  timestamp \<open>t2\<close>, and the bandwidth step republishes the default 0 with timestamp
  \<open>t2\<close>, because the exit gap is still unset. The bandwidth calculation is invoked
  only when an exit-gap sample \<open>e\<close> arrives, as \<open>calc_BW e 10 5\<close>, and its result is
  published with the timestamp \<open>t3\<close> of that sample.
\<close>

theorem scenario_pitch_then_mirror:
  "g_pi_callback ru \<lparr>data = 10, metadata_timestamp = t1\<rparr> (init t0) =
     (Inr (),
      (init t0)\<lparr>g_pi_value := Some 10,
                energy := \<lparr>pv_value = 0, pv_timestamp = t1\<rparr>,
                cff := \<lparr>pv_value = 0, pv_timestamp = t1\<rparr>,
                bandwidth := \<lparr>pv_value = 0, pv_timestamp = t1\<rparr>\<rparr>,
      [Write_energy 0 t1, Write_cff 0 t1, Write_bandwidth 0 t1])
   \<and> filter is_call
         (events_of (m_pi_callback ru \<lparr>data = 5, metadata_timestamp = t2\<rparr>
            (state_of (g_pi_callback ru \<lparr>data = 10, metadata_timestamp = t1\<rparr> (init t0)))))
       = [Call_calc_E 10 5]
   \<and> (calc_E ru 10 5 = Inr (en, c) \<longrightarrow>
        m_pi_callback ru \<lparr>data = 5, metadata_timestamp = t2\<rparr>
          (state_of (g_pi_callback ru \<lparr>data = 10, metadata_timestamp = t1\<rparr> (init t0))) =
        (Inr (),
         (init t0)\<lparr>g_pi_value := Some 10, m_pi_value := Some 5,
                   energy := \<lparr>pv_value = en, pv_timestamp = t2\<rparr>,
                   cff := \<lparr>pv_value = c, pv_timestamp = t2\<rparr>,
                   bandwidth := \<lparr>pv_value = 0, pv_timestamp = t2\<rparr>\<rparr>,
         [Call_calc_E 10 5, Write_energy en t2, Write_cff c t2, Write_bandwidth 0 t2]))
   \<and> (calc_E ru 10 5 = Inr (en, c) \<and> calc_BW ru e 10 5 = Inr bw \<longrightarrow>
        exit_gap_callback ru \<lparr>data = e, metadata_timestamp = t3\<rparr>
          (state_of (m_pi_callback ru \<lparr>data = 5, metadata_timestamp = t2\<rparr>
            (state_of (g_pi_callback ru \<lparr>data = 10, metadata_timestamp = t1\<rparr> (init t0))))) =
        (Inr (),
         (init t0)\<lparr>g_pi_value := Some 10, m_pi_value := Some 5, exit_gap_value := Some e,
                   energy := \<lparr>pv_value = en, pv_timestamp = t2\<rparr>,
                   cff := \<lparr>pv_value = c, pv_timestamp = t2\<rparr>,
                   bandwidth := \<lparr>pv_value = bw, pv_timestamp = t3\<rparr>\<rparr>,
         [Call_calc_BW e 10 5, Write_bandwidth bw t3]))"
  by (simp add: eval_defs init_def split: sum.splits prod.splits)

theorem scenario_pitch_then_mirror_witness:
  "calc_E demo_utilities 10 5 = Inr (15, 5)
   \<and> m_pi_callback demo_utilities \<lparr>data = 5, metadata_timestamp = 2\<rparr>
         (state_of (g_pi_callback demo_utilities \<lparr>data = 10, metadata_timestamp = 1\<rparr> (init 0))) =
       (Inr (),
        (init 0)\<lparr>g_pi_value := Some 10, m_pi_value := Some 5,
                 energy := \<lparr>pv_value = 15, pv_timestamp = 2\<rparr>,
                 cff := \<lparr>pv_value = 5, pv_timestamp = 2\<rparr>,
                 bandwidth := \<lparr>pv_value = 0, pv_timestamp = 2\<rparr>\<rparr>,
        [Call_calc_E 10 5, Write_energy 15 2, Write_cff 5 2, Write_bandwidth 0 2])
   \<and> calc_BW demo_utilities 2 10 5 = Inr 10
   \<and> exit_gap_callback demo_utilities \<lparr>data = 2, metadata_timestamp = 3\<rparr>
         (state_of (m_pi_callback demo_utilities \<lparr>data = 5, metadata_timestamp = 2\<rparr>
           (state_of (g_pi_callback demo_utilities \<lparr>data = 10, metadata_timestamp = 1\<rparr> (init 0))))) =
       (Inr (),
        (init 0)\<lparr>g_pi_value := Some 10, m_pi_value := Some 5, exit_gap_value := Some 2,
                 energy := \<lparr>pv_value = 15, pv_timestamp = 2\<rparr>,
                 cff := \<lparr>pv_value = 5, pv_timestamp = 2\<rparr>,
                 bandwidth := \<lparr>pv_value = 10, pv_timestamp = 3\<rparr>\<rparr>,
        [Call_calc_BW 2 10 5, Write_bandwidth 10 3])"
proof -
  have c: "calc_E demo_utilities 10 5 = Inr (15, 5)"
    and b: "calc_BW demo_utilities 2 10 5 = Inr 10"
    by (simp_all add: demo_utilities_def)
  from c b scenario_pitch_then_mirror [of demo_utilities 1 0 2 15 5 2 10 3]
  show ?thesis by blast
qed

subsection \<open>The energy step\<close>

text \<open>
  Claim C5. When the energy step runs with grating pitch \<open>g\<close> and mirror pitch \<open>m\<close>
  both set, it makes exactly one external call, \<open>calc_E g m\<close>; when that call returns
  the pair \<open>(en, c)\<close>, the step publishes \<open>en\<close> as energy and \<open>c\<close> as cff, both with
  the timestamp it was given, and does nothing else.
\<close>

theorem energy_recompute_one_call:
  "g_pi_value s = Some g \<Longrightarrow> m_pi_value s = Some m \<Longrightarrow>
   filter is_call (events_of (update_energy_calc ru ts s)) = [Call_calc_E g m]
   \<and> (calc_E ru g m = Inr (en, c) \<longrightarrow>
        update_energy_calc ru ts s =
          (Inr (),
           s\<lparr>energy := \<lparr>pv_value = en, pv_timestamp = ts\<rparr>,
             cff := \<lparr>pv_value = c, pv_timestamp = ts\<rparr>\<rparr>,
           [Call_calc_E g m, Write_energy en ts, Write_cff c ts]))"
  by (simp add: update_energy_calc_set events_of_def split: sum.splits prod.splits)

theorem energy_recompute_one_call_witness:
  "g_pi_value ready = Some 10 \<and> m_pi_value ready = Some 5
   \<and> calc_E demo_utilities 10 5 = Inr (15, 5)
   \<and> filter is_call (events_of (update_energy_calc demo_utilities 4 ready)) = [Call_calc_E 10 5]
   \<and> update_energy_calc demo_utilities 4 ready =
       (Inr (),
        ready\<lparr>energy := \<lparr>pv_value = 15, pv_timestamp = 4\<rparr>,
              cff := \<lparr>pv_value = 5, pv_timestamp = 4\<rparr>\<rparr>,
        [Call_calc_E 10 5, Write_energy 15 4, Write_cff 5 4])"
proof -
  have g: "g_pi_value ready = Some 10" and m: "m_pi_value ready = Some 5"
    by (simp_all add: ready_def)
  have c: "calc_E demo_utilities 10 5 = Inr (15, 5)"
    by (simp add: demo_utilities_def)
  from g m c energy_recompute_one_call [OF g m, of demo_utilities 4 15 5]
  show ?thesis by blast
qed

subsection \<open>The bandwidth step\<close>

text \<open>
  Claim C6. When the bandwidth step runs with exit gap \<open>e\<close>, grating pitch \<open>g\<close> and
  mirror pitch \<open>m\<close> all set, its one external call is \<open>calc_BW e g m\<close>, the arguments in
  the order exit gap, grating pitch, mirror pitch; when the call returns \<open>bw\<close>, the step
  publishes \<open>bw\<close> as bandwidth with the timestamp it was given, and does nothing else.
\<close>

theorem bandwidth_recompute_argument_order:
  "exit_gap_value s = Some e \<Longrightarrow> g_pi_value s = Some g \<Longrightarrow> m_pi_value s = Some m \<Longrightarrow>
   filter is_call (events_of (update_bandwidth_calc ru ts s)) = [Call_calc_BW e g m]
   \<and> (calc_BW ru e g m = Inr bw \<longrightarrow>
        update_bandwidth_calc ru ts s =
          (Inr (), s\<lparr>bandwidth := \<lparr>pv_value = bw, pv_timestamp = ts\<rparr>\<rparr>,
           [Call_calc_BW e g m, Write_bandwidth bw ts]))"
  by (simp add: update_bandwidth_calc_set events_of_def split: sum.splits)

theorem bandwidth_recompute_argument_order_witness:
  "exit_gap_value ready = Some 2 \<and> g_pi_value ready = Some 10 \<and> m_pi_value ready = Some 5
   \<and> calc_BW demo_utilities 2 10 5 = Inr 10
   \<and> filter is_call (events_of (update_bandwidth_calc demo_utilities 4 ready))
       = [Call_calc_BW 2 10 5]
   \<and> update_bandwidth_calc demo_utilities 4 ready =
       (Inr (), ready\<lparr>bandwidth := \<lparr>pv_value = 10, pv_timestamp = 4\<rparr>\<rparr>,
        [Call_calc_BW 2 10 5, Write_bandwidth 10 4])"
proof -
  have e: "exit_gap_value ready = Some 2" and g: "g_pi_value ready = Some 10"
    and m: "m_pi_value ready = Some 5"
    by (simp_all add: ready_def)
  have c: "calc_BW demo_utilities 2 10 5 = Inr 10"
    by (simp add: demo_utilities_def)
  from e g m c bandwidth_recompute_argument_order [OF e g m, of demo_utilities 4 10]
  show ?thesis by blast
qed

subsection \<open>The grating step\<close>

text \<open>
  Claim C9. The grating step does not use the value of the grating-horizontal slot, only
  whether it is set. In two states whose slots hold values \<open>a\<close> and \<open>b\<close>, the step
  calls the zero-argument \<open>get_grating\<close>, has the same outcome and the same events, and
  when \<open>get_grating\<close> returns a name, publishes that name in both. The same holds for
  the callback: two accepted samples \<open>x\<close> and \<open>y\<close> with the same timestamp give the
  same outcome, the same events and, unless the call raised, the same grating record.
\<close>

theorem grating_independent_of_sample:
  "(g_h_value s1 = Some a \<and> g_h_value s2 = Some b \<longrightarrow>
      calculate_grating ru s1 = (get_grating ru (), [Call_get_grating])
      \<and> calculate_grating ru s2 = calculate_grating ru s1
      \<and> fst (update_grating_calc ru ts s2) = fst (update_grating_calc ru ts s1)
      \<and> events_of (update_grating_calc ru ts s2) = events_of (update_grating_calc ru ts s1)
      \<and> (get_grating ru () = Inr name \<longrightarrow>
           grating (state_of (update_grating_calc ru ts s1)) = \<lparr>pv_value = name, pv_timestamp = ts\<rparr>
           \<and> grating (state_of (update_grating_calc ru ts s2)) = \<lparr>pv_value = name, pv_timestamp = ts\<rparr>))
   \<and> (moved (g_h_value s3) x \<and> moved (g_h_value s4) y \<longrightarrow>
      fst (g_h_callback ru \<lparr>data = y, metadata_timestamp = ts\<rparr> s4)
        = fst (g_h_callback ru \<lparr>data = x, metadata_timestamp = ts\<rparr> s3)
      \<and> events_of (g_h_callback ru \<lparr>data = y, metadata_timestamp = ts\<rparr> s4)
        = events_of (g_h_callback ru \<lparr>data = x, metadata_timestamp = ts\<rparr> s3)
      \<and> (\<not> raised (g_h_callback ru \<lparr>data = x, metadata_timestamp = ts\<rparr> s3) \<longrightarrow>
           grating (state_of (g_h_callback ru \<lparr>data = y, metadata_timestamp = ts\<rparr> s4))
             = grating (state_of (g_h_callback ru \<lparr>data = x, metadata_timestamp = ts\<rparr> s3))))"
proof (intro conjI impI)
  assume "moved (g_h_value s3) x \<and> moved (g_h_value s4) y"
  then have m: "moved (g_h_value s3) x" "moved (g_h_value s4) y" by simp_all
  have 3: "g_h_callback ru \<lparr>data = x, metadata_timestamp = ts\<rparr> s3 =
      update_grating_calc ru ts (s3\<lparr>g_h_value := Some x\<rparr>)"
    using m by (simp add: g_h_callback_def)
  have 4: "g_h_callback ru \<lparr>data = y, metadata_timestamp = ts\<rparr> s4 =
      update_grating_calc ru ts (s4\<lparr>g_h_value := Some y\<rparr>)"
    using m by (simp add: g_h_callback_def)
  show "fst (g_h_callback ru \<lparr>data = y, metadata_timestamp = ts\<rparr> s4)
        = fst (g_h_callback ru \<lparr>data = x, metadata_timestamp = ts\<rparr> s3)"
    by (simp add: 3 4 update_grating_calc_set split: sum.splits)
  show "events_of (g_h_callback ru \<lparr>data = y, metadata_timestamp = ts\<rparr> s4)
        = events_of (g_h_callback ru \<lparr>data = x, metadata_timestamp = ts\<rparr> s3)"
    by (simp add: 3 4 update_grating_calc_set events_of_def split: sum.splits)
  assume "\<not> raised (g_h_callback ru \<lparr>data = x, metadata_timestamp = ts\<rparr> s3)"
  then show "grating (state_of (g_h_callback ru \<lparr>data = y, metadata_timestamp = ts\<rparr> s4))
             = grating (state_of (g_h_callback ru \<lparr>data = x, metadata_timestamp = ts\<rparr> s3))"
    by (simp add: 3 4 update_grating_calc_set state_of_def raised_def split: sum.splits)
qed (auto simp: calculate_grating_def update_grating_calc_set events_of_def state_of_def
      split: sum.splits)

theorem grating_independent_of_sample_witness:
  "g_h_value ready = Some 7 \<and> g_h_value (ready\<lparr>g_h_value := Some 40\<rparr>) = Some 40
   \<and> get_grating demo_utilities () = Inr ''LRG''
   \<and> events_of (update_grating_calc demo_utilities 6 (ready\<lparr>g_h_value := Some 40\<rparr>))
       = events_of (update_grating_calc demo_utilities 6 ready)
   \<and> grating (state_of (update_grating_calc demo_utilities 6 ready))
       = \<lparr>pv_value = ''LRG'', pv_timestamp = 6\<rparr>
   \<and> grating (state_of (update_grating_calc demo_utilities 6 (ready\<lparr>g_h_value := Some 40\<rparr>)))
       = \<lparr>pv_value = ''LRG'', pv_timestamp = 6\<rparr>
   \<and> moved (g_h_value ready) 8 \<and> moved (g_h_value (init 0)) 40
   \<and> \<not> raised (g_h_callback demo_utilities \<lparr>data = 8, metadata_timestamp = 6\<rparr> ready)
   \<and> events_of (g_h_callback demo_utilities \<lparr>data = 40, metadata_timestamp = 6\<rparr> (init 0))
       = events_of (g_h_callback demo_utilities \<lparr>data = 8, metadata_timestamp = 6\<rparr> ready)
   \<and> grating (state_of (g_h_callback demo_utilities \<lparr>data = 40, metadata_timestamp = 6\<rparr> (init 0)))
       = grating (state_of (g_h_callback demo_utilities \<lparr>data = 8, metadata_timestamp = 6\<rparr> ready))"
proof -
  have h: "g_h_value ready = Some 7 \<and> g_h_value (ready\<lparr>g_h_value := Some 40\<rparr>) = Some 40"
    by (simp add: ready_def)
  have n: "get_grating demo_utilities () = Inr ''LRG''"
    by (simp add: demo_utilities_def)
  have mv: "moved (g_h_value ready) 8 \<and> moved (g_h_value (init 0)) 40"
    by (simp add: moved_def isclose_far ready_def init_def)
  have nr: "\<not> raised (g_h_callback demo_utilities \<lparr>data = 8, metadata_timestamp = 6\<rparr> ready)"
    by (simp add: eval_defs ready_def init_def demo_utilities_def)
  from h n mv nr
    grating_independent_of_sample [of ready 7 "ready\<lparr>g_h_value := Some 40\<rparr>" 40
      demo_utilities 6 "''LRG''" ready 8 "init 0" 40]
  show ?thesis by blast
qed

lemma paired_append: "paired xs \<Longrightarrow> paired ys \<Longrightarrow> paired (xs @ ys)"
  by (induction xs rule: paired.induct) simp_all

lemma energy_writes_append: "energy_writes (xs @ ys) = energy_writes xs @ energy_writes ys"
  by (induction xs rule: energy_writes.induct) simp_all

lemma cff_writes_append: "cff_writes (xs @ ys) = cff_writes xs @ cff_writes ys"
  by (induction xs rule: cff_writes.induct) simp_all

lemma run_step_paired: "paired (events_of (run_step st ru ts s))"
  by (cases st)
     (auto simp: update_energy_calc_def update_bandwidth_calc_def update_grating_calc_def
        calculate_energy_def calculate_bandwidth_def calculate_grating_def events_of_def
        split: prod.splits sum.splits option.splits)

lemma run_step_writes:
  "energy_writes (events_of (run_step st ru ts s)) = cff_writes (events_of (run_step st ru ts s))"
  by (cases st)
     (auto simp: update_energy_calc_def update_bandwidth_calc_def update_grating_calc_def
        calculate_energy_def calculate_bandwidth_def calculate_grating_def events_of_def
        split: prod.splits sum.splits option.splits)

lemma run_step_stamp:
  "t \<in> set (energy_writes (events_of (run_step st ru ts s))) \<Longrightarrow> t = ts"
  by (cases st)
     (auto simp: update_energy_calc_def update_bandwidth_calc_def update_grating_calc_def
        calculate_energy_def calculate_bandwidth_def calculate_grating_def events_of_def
        split: prod.splits sum.splits option.splits)

lemma run_steps_paired: "paired (events_of (run_steps sts ru ts s))"
proof (induction sts arbitrary: s)
  case Nil
  show ?case by (simp add: events_of_def)
next
  case (Cons st sts)
  show ?case
    by (simp add: events_of_and_then paired_append run_step_paired Cons.IH)
qed

lemma run_steps_writes:
  "energy_writes (events_of (run_steps sts ru ts s)) = cff_writes (events_of (run_steps sts ru ts s))"
proof (induction sts arbitrary: s)
  case Nil
  show ?case by (simp add: events_of_def)
next
  case (Cons st sts)
  show ?case
    by (simp add: events_of_and_then energy_writes_append cff_writes_append run_step_writes
        Cons.IH)
qed

lemma run_steps_stamp:
  "t \<in> set (energy_writes (events_of (run_steps sts ru ts s))) \<Longrightarrow> t = ts"
proof (induction sts arbitrary: s)
  case Nil
  then show ?case by (simp add: events_of_def)
next
  case (Cons st sts)
  then show ?case
    by (auto simp: events_of_and_then energy_writes_append dest: run_step_stamp
        split: if_splits)
qed

lemma update_energy_calc_stamps:
  "pv_timestamp (energy s) = pv_timestamp (cff s) \<Longrightarrow>
   pv_timestamp (energy (state_of (update_energy_calc ru ts s)))
     = pv_timestamp (cff (state_of (update_energy_calc ru ts s)))"
  by (simp add: update_energy_calc_def state_of_def split: prod.splits sum.splits)

lemma callback_stamps:
  "pv_timestamp (energy s) = pv_timestamp (cff s) \<Longrightarrow>
   pv_timestamp (energy (state_of (callback sl ru resp s)))
     = pv_timestamp (cff (state_of (callback sl ru resp s)))"
proof (cases "Energy_step \<in> set (dependents sl)")
  case False
  assume "pv_timestamp (energy s) = pv_timestamp (cff s)"
  with False callback_frame [of sl ru resp s] show ?thesis by simp
next
  case True
  assume eq: "pv_timestamp (energy s) = pv_timestamp (cff s)"
  from True have d: "dependents sl = [Energy_step, Bandwidth_step]" by (cases sl) simp_all
  let ?s0 = "store sl (data resp) s" and ?ts = "metadata_timestamp resp"
  have eq0: "pv_timestamp (energy ?s0) = pv_timestamp (cff ?s0)"
    using eq by (simp add: store_outputs)
  have e: "pv_timestamp (energy (state_of (update_energy_calc ru ?ts ?s0)))
      = pv_timestamp (cff (state_of (update_energy_calc ru ?ts ?s0)))"
    by (rule update_energy_calc_stamps [OF eq0])
  have "pv_timestamp (energy (state_of (run_steps (dependents sl) ru ?ts ?s0)))
      = pv_timestamp (cff (state_of (run_steps (dependents sl) ru ?ts ?s0)))"
    using e run_step_frame [of Bandwidth_step ru ?ts "state_of (update_energy_calc ru ?ts ?s0)"]
    by (simp add: d state_of_and_then state_of_simp)
  with eq show ?thesis by (simp add: callback_unfold state_of_simp)
qed

subsection \<open>Energy and cff are written together\<close>

text \<open>
  Claim C10. In every handler invocation each write of the energy record is followed
  at once by a write of the cff record with the same timestamp, and no cff write
  stands alone (\<open>paired\<close>); the timestamps of the energy writes are those of the cff
  writes, in order, and each is the timestamp of the sample. Hence if the two records
  carried the same timestamp before the invocation, they do so after it.
\<close>

theorem energy_cff_written_as_pair:
  "paired (events_of (callback sl ru resp s))
   \<and> energy_writes (events_of (callback sl ru resp s)) = cff_writes (events_of (callback sl ru resp s))
   \<and> (\<forall>t \<in> set (energy_writes (events_of (callback sl ru resp s))). t = metadata_timestamp resp)
   \<and> (pv_timestamp (energy s) = pv_timestamp (cff s) \<longrightarrow>
        pv_timestamp (energy (state_of (callback sl ru resp s)))
          = pv_timestamp (cff (state_of (callback sl ru resp s))))"
proof (intro conjI impI ballI)
  show "paired (events_of (callback sl ru resp s))"
    by (simp add: callback_unfold events_of_simp run_steps_paired)
  show "energy_writes (events_of (callback sl ru resp s))
      = cff_writes (events_of (callback sl ru resp s))"
    by (simp add: callback_unfold events_of_simp run_steps_writes)
next
  fix t
  assume "t \<in> set (energy_writes (events_of (callback sl ru resp s)))"
  then show "t = metadata_timestamp resp"
    by (auto simp: callback_unfold events_of_simp dest: run_steps_stamp split: if_splits)
next
  assume "pv_timestamp (energy s) = pv_timestamp (cff s)"
  then show "pv_timestamp (energy (state_of (callback sl ru resp s)))
          = pv_timestamp (cff (state_of (callback sl ru resp s)))"
    by (rule callback_stamps)
qed

theorem energy_cff_written_as_pair_witness:
  "events_of (callback G_PI demo_utilities \<lparr>data = 11, metadata_timestamp = 3\<rparr> ready)
     = [Call_calc_E 11 5, Write_energy 16 3, Write_cff 6 3, Call_calc_BW 2 11 5, Write_bandwidth 12 3]
   \<and> paired [Call_calc_E 11 5, Write_energy 16 3, Write_cff 6 3, Call_calc_BW 2 11 5, Write_bandwidth 12 3]
   \<and> energy_writes (events_of (callback G_PI demo_utilities \<lparr>data = 11, metadata_timestamp = 3\<rparr> ready)) = [3]
   \<and> cff_writes (events_of (callback G_PI demo_utilities \<lparr>data = 11, metadata_timestamp = 3\<rparr> ready)) = [3]
   \<and> pv_timestamp (energy ready) = pv_timestamp (cff ready)
   \<and> pv_timestamp (energy (state_of (callback G_PI demo_utilities \<lparr>data = 11, metadata_timestamp = 3\<rparr> ready)))
     = pv_timestamp (cff (state_of (callback G_PI demo_utilities \<lparr>data = 11, metadata_timestamp = 3\<rparr> ready)))"
proof -
  let ?r = "\<lparr>data = 11, metadata_timestamp = 3\<rparr>"
  have ev: "events_of (callback G_PI demo_utilities ?r ready)
     = [Call_calc_E 11 5, Write_energy 16 3, Write_cff 6 3, Call_calc_BW 2 11 5, Write_bandwidth 12 3]"
    by (simp add: eval_defs ready_def init_def demo_utilities_def)
  have st: "pv_timestamp (energy ready) = pv_timestamp (cff ready)"
    by (simp add: ready_def init_def)
  from st energy_cff_written_as_pair [of G_PI demo_utilities ?r ready]
  have 1: "paired (events_of (callback G_PI demo_utilities ?r ready))"
    and 2: "pv_timestamp (energy (state_of (callback G_PI demo_utilities ?r ready)))
     = pv_timestamp (cff (state_of (callback G_PI demo_utilities ?r ready)))"
    by blast+
  from ev st 1 2 show ?thesis by simp
qed

subsection \<open>A raise of the calculation module\<close>






















subsection \<open>The stub for the facility namespace\<close>




end
